theory Spec2Isabelle
  imports Main
begin

section \<open>JavaScript values, errors and promises\<close>

text \<open>
  The three handlers of the backend (the Redis-backed chat handler \<^verbatim>\<open>api/chat.js\<close>, the
  in-memory chat handler and the speech-synthesis handler) are plain JavaScript. The values
  they touch are JSON data (request bodies, upstream responses, the admission decision
  objects) and one promise. Numbers are modelled as integers: the handlers only test them
  for truthiness, for their type and for equality with \<open>503\<close>. An object is the list of its
  own properties, with distinct keys. \<open>JPromise v\<close> is a promise object that settles with
  the value \<open>v\<close>.
\<close>

datatype jsval =
    Undefined
  | Null
  | JBool bool
  | JNum int
  | JStr string
  | JArr "jsval list"
  | JObj "(string \<times> jsval) list"
  | JPromise jsval

text \<open>
  What the handlers can catch: an error object with an optional numeric \<open>status\<close> and an
  optional string \<open>message\<close>, as the upstream SDK and \<open>fetch\<close> throw them. A \<open>TypeError\<close>
  raised by the language itself (a property read on \<open>undefined\<close> or \<open>null\<close>, a call of
  something that is not a function) has no status; its engine-made message mentions
  neither \<open>overloaded\<close> nor \<open>quota\<close>.
\<close>

record js_error =
  err_status :: "int option"
  err_message :: "string option"

definition TypeError :: js_error where
  "TypeError = \<lparr>err_status = None, err_message = Some ''TypeError''\<rparr>"

text \<open>Truthiness, as \<open>!x\<close> and \<open>x || y\<close> use it.\<close>

fun truthy :: "jsval \<Rightarrow> bool" where
  "truthy Undefined = False"
| "truthy Null = False"
| "truthy (JBool b) = b"
| "truthy (JNum n) = (n \<noteq> 0)"
| "truthy (JStr s) = (s \<noteq> [])"
| "truthy (JArr xs) = True"
| "truthy (JObj kvs) = True"
| "truthy (JPromise v) = True"

text \<open>
  \<open>x.name\<close>: a \<open>TypeError\<close> on \<open>undefined\<close> and \<open>null\<close>, the property's value on an object
  that has it, \<open>undefined\<close> otherwise. The names the handlers read (\<open>allowed\<close>,
  \<open>message\<close>, \<open>reason\<close>, \<open>text\<close>, \<open>conversationHistory\<close>, \<open>role\<close>, \<open>content\<close>,
  \<open>candidates\<close>, \<open>parts\<close>, \<open>inlineData\<close>, \<open>data\<close>, \<open>mimeType\<close>) are not members of
  the String, Number, Boolean, Array or Promise prototypes, so on those values, and on a
  promise in particular, the read gives \<open>undefined\<close>: a promise does not forward property
  reads to the value it will settle with.
\<close>

fun get_prop :: "jsval \<Rightarrow> string \<Rightarrow> js_error + jsval" where
  "get_prop Undefined name = Inl TypeError"
| "get_prop Null name = Inl TypeError"
| "get_prop (JObj kvs) name = Inr (case map_of kvs name of Some v \<Rightarrow> v | None \<Rightarrow> Undefined)"
| "get_prop (JPromise v) name = Inr Undefined"
| "get_prop v name = Inr Undefined"

text \<open>\<open>await p\<close>: the settled value of a promise, the value itself otherwise.\<close>

fun await :: "jsval \<Rightarrow> jsval" where
  "await (JPromise v) = v"
| "await v = v"

text \<open>\<open>s.includes(sub)\<close> on strings.\<close>

fun starts_with :: "string \<Rightarrow> string \<Rightarrow> bool" where
  "starts_with s [] = True"
| "starts_with [] (c # sub) = False"
| "starts_with (d # s) (c # sub) = (d = c \<and> starts_with s sub)"

fun str_includes :: "string \<Rightarrow> string \<Rightarrow> bool" where
  "str_includes [] sub = (sub = [])"
| "str_includes (c # s) sub = (starts_with (c # s) sub \<or> str_includes s sub)"

text \<open>\<open>error.message?.includes(sub)\<close>, used as a condition: \<open>undefined\<close> is falsy.\<close>

definition message_includes :: "js_error \<Rightarrow> string \<Rightarrow> bool" where
  "message_includes e sub = (case err_message e of None \<Rightarrow> False | Some m \<Rightarrow> str_includes m sub)"

section \<open>The retry loop around the upstream chat call\<close>

text \<open>
  Both chat handlers send the message in the same loop:
  \<^verbatim>\<open>
    let result; let retries = 0; const MAX_RETRIES = 2;
    while (retries <= MAX_RETRIES) {
      try { result = await chat.sendMessage(message); break; }
      catch (err) {
        if (err.status === 503 && retries < MAX_RETRIES) {
          retries++;
          await new Promise(resolve => setTimeout(resolve, 1000 * retries));
        } else { throw err; }
      }
    }
  \<close>
  The upstream service is a parameter: \<open>send n\<close> is what the \<open>n\<close>-th call of
  \<open>chat.sendMessage\<close> (counted from 0) does, either resolving with a result or rejecting
  with an error. A result carries what \<open>response.text()\<close> will do, which may itself throw
  (a blocked response). The loop's effects are the number of calls made and the delays
  waited, in milliseconds and in order.
\<close>

datatype send_outcome = Resolved "js_error + string" | Rejected js_error

record upstream_log =
  calls :: nat
  waits :: "int list"

definition no_calls :: upstream_log where
  "no_calls = \<lparr>calls = 0, waits = []\<rparr>"

definition MAX_RETRIES :: nat where
  "MAX_RETRIES = 2"

text \<open>
  The loop returns \<open>Inl err\<close> when it rethrows, \<open>Inr (Some r)\<close> when it leaves by \<open>break\<close>
  with \<open>result = r\<close>, and \<open>Inr None\<close> when the loop condition fails with \<open>result\<close> still
  undefined.
\<close>

function retry_loop ::
  "(nat \<Rightarrow> send_outcome) \<Rightarrow> nat \<Rightarrow> upstream_log \<Rightarrow> (js_error + (js_error + string) option) \<times> upstream_log"
where
  "retry_loop send retries lg =
     (if retries \<le> MAX_RETRIES then
        (case send (calls lg) of
           Resolved r \<Rightarrow> (Inr (Some r), lg\<lparr>calls := calls lg + 1\<rparr>)
         | Rejected err \<Rightarrow>
             if err_status err = Some 503 \<and> retries < MAX_RETRIES then
               retry_loop send (retries + 1)
                 (lg\<lparr>calls := calls lg + 1, waits := waits lg @ [1000 * int (retries + 1)]\<rparr>)
             else (Inl err, lg\<lparr>calls := calls lg + 1\<rparr>))
      else (Inr None, lg))"
  by pat_completeness auto
termination
  by (relation "measure (\<lambda>(send, retries, lg). Suc MAX_RETRIES - retries)") auto


section \<open>Requests and responses\<close>

text \<open>
  A request as the platform hands it to a handler: the method, the \<open>x-forwarded-for\<close>
  header (absent or a string), the socket's remote address (absent or a string) and the
  parsed body, which is \<open>null\<close> or \<open>undefined\<close> when no body was sent. \<open>req.headers\<close> and
  \<open>req.socket\<close> are always present on a Node request object. A response is the status and
  the JSON payload (\<open>None\<close> for \<open>res.status(200).end()\<close>).
\<close>

record request =
  req_method :: string
  x_forwarded_for :: "string option"
  remoteAddress :: "string option"
  body :: jsval

record response =
  status :: int
  json :: "jsval option"

definition respond :: "int \<Rightarrow> jsval \<Rightarrow> response" where
  "respond code payload = \<lparr>status = code, json = Some payload\<rparr>"

definition str_truthy :: "string option \<Rightarrow> bool" where
  "str_truthy v = (case v of None \<Rightarrow> False | Some s \<Rightarrow> s \<noteq> [])"

text \<open>
  \<^verbatim>\<open>req.headers['x-forwarded-for'] || req.socket.remoteAddress || 'unknown'\<close>
\<close>

definition clientIp :: "request \<Rightarrow> string" where
  "clientIp req =
     (if str_truthy (x_forwarded_for req) then the (x_forwarded_for req)
      else if str_truthy (remoteAddress req) then the (remoteAddress req)
      else ''unknown'')"

section \<open>The shared tail of the two chat handlers\<close>

text \<open>
  The \<open>catch\<close> clause of both chat handlers (\<^verbatim>\<open>api/chat.js\<close> lines 209 to 225): the
  overload test comes first, then the quota test, then the generic 500, whose \<open>details\<close>
  are the error's message only when \<open>NODE_ENV\<close> is \<open>development\<close>.
\<close>

definition chat_catch :: "bool \<Rightarrow> js_error \<Rightarrow> response" where
  "chat_catch development error =
     (if err_status error = Some 503 \<or> message_includes error ''overloaded'' then
        respond 503 (JObj [(''error'',
          JStr ''AI service is temporarily overloaded. Please try again in a moment.'')])
      else if message_includes error ''quota'' then
        respond 503 (JObj [(''error'',
          JStr ''Service temporarily unavailable. Please try again later.'')])
      else
        respond 500 (JObj [(''error'', JStr ''Failed to process chat request''),
          (''details'', if development then (case err_message error of Some m \<Rightarrow> JStr m | None \<Rightarrow> Undefined)
                        else Undefined)]))"

text \<open>
  \<^verbatim>\<open>conversationHistory.map(msg => ({ role: msg.role, parts: [{ text: msg.content }] }))\<close>:
  a \<open>TypeError\<close> when \<open>conversationHistory\<close> is not an array (JSON data has no \<open>map\<close>
  function of its own) or when an element is \<open>null\<close>.
\<close>

definition history_entry :: "jsval \<Rightarrow> js_error + jsval" where
  "history_entry msg =
     (case get_prop msg ''role'' of
        Inl e \<Rightarrow> Inl e
      | Inr role \<Rightarrow>
          (case get_prop msg ''content'' of
             Inl e \<Rightarrow> Inl e
           | Inr content \<Rightarrow>
               Inr (JObj [(''role'', role), (''parts'', JArr [JObj [(''text'', content)]])])))"

fun map_history :: "jsval list \<Rightarrow> js_error + jsval list" where
  "map_history [] = Inr []"
| "map_history (msg # msgs) =
     (case history_entry msg of
        Inl e \<Rightarrow> Inl e
      | Inr h \<Rightarrow> (case map_history msgs of Inl e \<Rightarrow> Inl e | Inr hs \<Rightarrow> Inr (h # hs)))"

definition build_history :: "jsval \<Rightarrow> js_error + jsval list" where
  "build_history conversationHistory =
     (case conversationHistory of JArr msgs \<Rightarrow> map_history msgs | _ \<Rightarrow> Inl TypeError)"

text \<open>
  What a chat handler takes from outside: the SDK's \<open>startChat\<close>, which validates the
  history and may throw (\<open>Some e\<close>); \<open>sendMessage\<close>, given the message and the number of
  the call; the clock's \<open>new Date().toISOString()\<close>; and whether \<open>NODE_ENV\<close> is
  \<open>development\<close>.
\<close>

record chat_env =
  startChat :: "jsval list \<Rightarrow> js_error option"
  sendMessage :: "jsval \<Rightarrow> nat \<Rightarrow> send_outcome"
  timestamp :: string
  development :: bool

text \<open>
  Lines 138 to 207 of \<^verbatim>\<open>api/chat.js\<close>, which the in-memory variant repeats word for word
  (its model only lacks the system instruction): destructure the body, require a message,
  build the history, run the retry loop, answer 200. \<open>Inl e\<close> is an exception on its way to
  the \<open>catch\<close> clause.
\<close>

definition forward :: "chat_env \<Rightarrow> jsval \<Rightarrow> (js_error + response) \<times> upstream_log" where
  "forward env req_body =
     (case get_prop req_body ''message'' of
        Inl e \<Rightarrow> (Inl e, no_calls)
      | Inr message \<Rightarrow>
     (case get_prop req_body ''conversationHistory'' of
        Inl e \<Rightarrow> (Inl e, no_calls)
      | Inr ch \<Rightarrow>
          let conversationHistory = (if ch = Undefined then JArr [] else ch) in
          if \<not> truthy message then
            (Inr (respond 400 (JObj [(''error'', JStr ''Message is required'')])), no_calls)
          else
            (case build_history conversationHistory of
               Inl e \<Rightarrow> (Inl e, no_calls)
             | Inr history \<Rightarrow>
            (case startChat env history of
               Some e \<Rightarrow> (Inl e, no_calls)
             | None \<Rightarrow>
            (case retry_loop (sendMessage env message) 0 no_calls of
               (Inl e, lg) \<Rightarrow> (Inl e, lg)
             | (Inr None, lg) \<Rightarrow> (Inl TypeError, lg)
             | (Inr (Some (Inl e)), lg) \<Rightarrow> (Inl e, lg)
             | (Inr (Some (Inr text)), lg) \<Rightarrow>
                 (Inr (respond 200 (JObj [(''response'', JStr text),
                                          (''timestamp'', JStr (timestamp env))])), lg))))))"

definition forward_caught :: "chat_env \<Rightarrow> jsval \<Rightarrow> response \<times> upstream_log" where
  "forward_caught env req_body =
     (case forward env req_body of
        (Inl error, lg) \<Rightarrow> (chat_catch (development env) error, lg)
      | (Inr res, lg) \<Rightarrow> (res, lg))"

section \<open>The in-memory chat variant\<close>

text \<open>
  \<^verbatim>\<open>
    const requestCounts = new Map();
    const RATE_LIMIT = 100; const RATE_WINDOW = 60 * 60 * 1000;
    function checkRateLimit(ip) {
      const now = Date.now();
      const record = requestCounts.get(ip) || { count: 0, resetTime: now + RATE_WINDOW };
      if (now > record.resetTime) { record.count = 0; record.resetTime = now + RATE_WINDOW; }
      record.count++;
      requestCounts.set(ip, record);
      return record.count <= RATE_LIMIT;
    }
  \<close>
  The map is the state, passed in and returned; \<open>now\<close> is the clock's reading. The body is
  written once with the limit and the window as parameters (\<open>check_window\<close>), and
  \<open>checkRateLimit_mem\<close> is that body at the two constants of the source.
\<close>

record counter =
  count :: nat
  resetTime :: int

definition RATE_LIMIT :: nat where
  "RATE_LIMIT = 100"

definition RATE_WINDOW :: int where
  "RATE_WINDOW = 60 * 60 * 1000"

definition check_window ::
  "nat \<Rightarrow> int \<Rightarrow> int \<Rightarrow> string \<Rightarrow> (string \<rightharpoonup> counter) \<Rightarrow> bool \<times> (string \<rightharpoonup> counter)"
where
  "check_window lim win now ip requestCounts =
     (let record0 = (case requestCounts ip of
                       Some r \<Rightarrow> r
                     | None \<Rightarrow> \<lparr>count = 0, resetTime = now + win\<rparr>);
          record1 = (if now > resetTime record0
                     then record0\<lparr>count := 0, resetTime := now + win\<rparr> else record0);
          record2 = record1\<lparr>count := count record1 + 1\<rparr>
      in (count record2 \<le> lim, requestCounts(ip \<mapsto> record2)))"

definition checkRateLimit_mem ::
  "int \<Rightarrow> string \<Rightarrow> (string \<rightharpoonup> counter) \<Rightarrow> bool \<times> (string \<rightharpoonup> counter)"
where
  "checkRateLimit_mem now ip requestCounts = check_window RATE_LIMIT RATE_WINDOW now ip requestCounts"

text \<open>
  A run of the in-memory limiter: the calls arrive in order, each with the clock's reading
  and the caller's key; the result is the list of the answers.
\<close>

fun check_sequence ::
  "nat \<Rightarrow> int \<Rightarrow> (int \<times> string) list \<Rightarrow> (string \<rightharpoonup> counter) \<Rightarrow> bool list"
where
  "check_sequence lim win [] requestCounts = []"
| "check_sequence lim win ((now, ip) # rest) requestCounts =
     (case check_window lim win now ip requestCounts of
        (ok, requestCounts') \<Rightarrow> ok # check_sequence lim win rest requestCounts')"

definition handler_mem ::
  "chat_env \<Rightarrow> int \<Rightarrow> request \<Rightarrow> (string \<rightharpoonup> counter) \<Rightarrow> response \<times> upstream_log \<times> (string \<rightharpoonup> counter)"
where
  "handler_mem env now req requestCounts =
     (if req_method req = ''OPTIONS'' then (respond 200 (JObj []), no_calls, requestCounts)
      else if req_method req \<noteq> ''POST'' then
        (respond 405 (JObj [(''error'', JStr ''Method not allowed'')]), no_calls, requestCounts)
      else
        (case checkRateLimit_mem now (clientIp req) requestCounts of
           (ok, requestCounts') \<Rightarrow>
             if \<not> ok then
               (respond 429 (JObj [(''error'', JStr ''Rate limit exceeded. Please try again later.'')]),
                no_calls, requestCounts')
             else
               (case forward_caught env (body req) of
                  (res, lg) \<Rightarrow> (res, lg, requestCounts'))))"


section \<open>The rate-limit library and the Counter Store\<close>

text \<open>
  The Redis-backed handlers build \<open>Ratelimit\<close> objects of the Upstash library, each with
  a key prefix, a token count and a window, and call \<open>limiter.limit(identifier)\<close>, which
  resolves with an object holding \<open>success\<close> and \<open>reset\<close>, or rejects when the store
  cannot be reached. The library is a parameter of the model: a function from the limiter,
  the identifier and the store's state to the call's outcome and the store's next state.
  Every call a handler makes is recorded, in order, with its outcome.
\<close>

record limiter =
  rl_prefix :: string
  rl_tokens :: nat
  rl_window :: int

record limit_response =
  success :: bool
  reset :: int

record store_call =
  on_limiter :: limiter
  call_key :: string
  outcome :: "js_error + limit_response"

type_synonym 'st limit_fn = "limiter \<Rightarrow> string \<Rightarrow> 'st \<Rightarrow> (js_error + limit_response) \<times> 'st"

definition limit_call ::
  "'st limit_fn \<Rightarrow> limiter \<Rightarrow> string \<Rightarrow> 'st \<times> store_call list
     \<Rightarrow> (js_error + limit_response) \<times> 'st \<times> store_call list"
where
  "limit_call lim l key sx =
     (case lim l key (fst sx) of
        (r, st') \<Rightarrow> (r, st', snd sx @ [\<lparr>on_limiter = l, call_key = key, outcome = r\<rparr>]))"

text \<open>Which limiter a recorded call was made on, and for which identifier.\<close>

definition call_target :: "store_call \<Rightarrow> limiter \<times> string" where
  "call_target c = (on_limiter c, call_key c)"

text \<open>
  Modelled from the spec: the Counter Store, an external service. It "atomically
  increment[s] a named counter and return[s] the post-increment count plus the window's
  reset time"; a tier is violated "if \<open>count > limit\<close>", and "the increment still
  occurred". An unreachable store raises on every call. The counter's name is the
  limiter's prefix and the identifier, joined by a colon, as the library does.
\<close>

record counter_store =
  reachable :: bool
  counters :: "string \<Rightarrow> nat"
  resets :: "string \<Rightarrow> int"

definition store_unreachable :: js_error where
  "store_unreachable = \<lparr>err_status = None, err_message = Some ''fetch failed''\<rparr>"

definition store_limit :: "counter_store limit_fn" where
  "store_limit l key st =
     (if \<not> reachable st then (Inl store_unreachable, st)
      else
        let name = rl_prefix l @ '':'' @ key;
            n = counters st name + 1
        in (Inr \<lparr>success = (n \<le> rl_tokens l), reset = resets st name\<rparr>,
            st\<lparr>counters := (counters st)(name := n)\<rparr>))"

section \<open>The Redis-backed chat variant\<close>

text \<open>
  The module's limiters (\<^verbatim>\<open>api/chat.js\<close> lines 14 to 45): all \<open>null\<close> unless both
  environment variables are set.
\<close>

record chat_limiters =
  redis :: bool
  perUserRatelimit :: "limiter option"
  globalDailyRatelimit :: "limiter option"
  globalRpmRatelimit :: "limiter option"

definition day_ms :: int where
  "day_ms = 24 * 60 * 60 * 1000"

definition minute_ms :: int where
  "minute_ms = 60 * 1000"

definition init_chat_limiters :: "string option \<Rightarrow> string option \<Rightarrow> chat_limiters" where
  "init_chat_limiters url token =
     (if str_truthy url \<and> str_truthy token then
        \<lparr>redis = True,
         perUserRatelimit = Some \<lparr>rl_prefix = ''ratelimit:user'', rl_tokens = 50, rl_window = day_ms\<rparr>,
         globalDailyRatelimit =
           Some \<lparr>rl_prefix = ''ratelimit:global:daily'', rl_tokens = 900, rl_window = day_ms\<rparr>,
         globalRpmRatelimit =
           Some \<lparr>rl_prefix = ''ratelimit:global:rpm'', rl_tokens = 12, rl_window = minute_ms\<rparr>\<rparr>
      else
        \<lparr>redis = False, perUserRatelimit = None, globalDailyRatelimit = None,
         globalRpmRatelimit = None\<rparr>)"

definition allowed_true :: jsval where
  "allowed_true = JObj [(''allowed'', JBool True)]"

definition denied :: "string \<Rightarrow> string \<Rightarrow> int \<Rightarrow> jsval" where
  "denied why msg resetAt =
     JObj [(''allowed'', JBool False), (''reason'', JStr why), (''message'', JStr msg),
           (''resetTime'', JNum resetAt)]"

text \<open>
  \<open>checkRateLimit\<close> of \<^verbatim>\<open>api/chat.js\<close> (lines 57 to 104), run to its end: the decision
  object it resolves with, the store's state and the calls made. An outcome \<open>Inl error\<close>
  of a \<open>limit\<close> call is the rejection that the \<open>catch\<close> clause turns into
  \<open>{ allowed: true }\<close>.
\<close>

definition checkRateLimit ::
  "'st limit_fn \<Rightarrow> chat_limiters \<Rightarrow> string \<Rightarrow> 'st \<Rightarrow> jsval \<times> 'st \<times> store_call list"
where
  "checkRateLimit lim cfg ip st =
     (case (perUserRatelimit cfg, globalDailyRatelimit cfg, globalRpmRatelimit cfg) of
        (Some perUser, Some globalDaily, Some globalRpm) \<Rightarrow>
          if \<not> redis cfg then (allowed_true, st, [])
          else
            (case limit_call lim globalDaily ''global'' (st, []) of
               (Inl error, sx) \<Rightarrow> (allowed_true, sx)
             | (Inr globalDailyResult, sx) \<Rightarrow>
                 if \<not> success globalDailyResult then
                   (denied ''daily_limit''
                      ''Daily request limit reached. Please try again tomorrow.''
                      (reset globalDailyResult), sx)
                 else
            (case limit_call lim globalRpm ''global'' sx of
               (Inl error, sx) \<Rightarrow> (allowed_true, sx)
             | (Inr globalRpmResult, sx) \<Rightarrow>
                 if \<not> success globalRpmResult then
                   (denied ''rpm_limit''
                      ''Too many requests per minute. Please wait a moment.''
                      (reset globalRpmResult), sx)
                 else
            (case limit_call lim perUser ip sx of
               (Inl error, sx) \<Rightarrow> (allowed_true, sx)
             | (Inr userResult, sx) \<Rightarrow>
                 if \<not> success userResult then
                   (denied ''user_limit''
                      ''You have reached your daily limit of 50 questions. Please try again tomorrow.''
                      (reset userResult), sx)
                 else (allowed_true, sx))))
      | _ \<Rightarrow> (allowed_true, st, []))"

text \<open>
  Lines 122 to 129, on whatever value \<open>rateLimitResult\<close> holds: \<open>Some\<close> response when
  the 429 is sent, \<open>None\<close> when the handler goes on.
\<close>

definition admission_branch :: "jsval \<Rightarrow> js_error + response option" where
  "admission_branch rateLimitResult =
     (case get_prop rateLimitResult ''allowed'' of
        Inl e \<Rightarrow> Inl e
      | Inr allowed \<Rightarrow>
          if \<not> truthy allowed then
            (case get_prop rateLimitResult ''message'' of
               Inl e \<Rightarrow> Inl e
             | Inr msg \<Rightarrow>
                 (case get_prop rateLimitResult ''reason'' of
                    Inl e \<Rightarrow> Inl e
                  | Inr why \<Rightarrow> Inr (Some (respond 429 (JObj [(''error'', msg), (''reason'', why)])))))
          else Inr None)"

text \<open>
  The handler of \<^verbatim>\<open>api/chat.js\<close>. Line 122 reads
  \<^verbatim>\<open>const rateLimitResult = checkRateLimit(clientIp);\<close>
  with no \<open>await\<close>: \<open>checkRateLimit\<close> is an \<open>async\<close> function, so \<open>rateLimitResult\<close> is
  the promise of the decision, not the decision. The check it started still runs; the
  store's state and the calls returned here are those once it has settled.
\<close>

definition handler ::
  "'st limit_fn \<Rightarrow> chat_limiters \<Rightarrow> chat_env \<Rightarrow> request \<Rightarrow> 'st
     \<Rightarrow> response \<times> upstream_log \<times> 'st \<times> store_call list"
where
  "handler lim cfg env req st =
     (if req_method req = ''OPTIONS'' then (respond 200 (JObj []), no_calls, st, [])
      else if req_method req \<noteq> ''POST'' then
        (respond 405 (JObj [(''error'', JStr ''Method not allowed'')]), no_calls, st, [])
      else
        (case checkRateLimit lim cfg (clientIp req) st of
           (decision, sx) \<Rightarrow>
             let rateLimitResult = JPromise decision in
             (case admission_branch rateLimitResult of
                Inl error \<Rightarrow> (chat_catch (development env) error, no_calls, sx)
              | Inr (Some res) \<Rightarrow> (res, no_calls, sx)
              | Inr None \<Rightarrow>
                  (case forward_caught env (body req) of (res, lg) \<Rightarrow> (res, lg, sx)))))"


section \<open>The speech-synthesis variant\<close>

record tts_limiters =
  tts_redis :: bool
  tts_perUserRatelimit :: "limiter option"
  tts_globalRpmRatelimit :: "limiter option"

definition init_tts_limiters :: "string option \<Rightarrow> string option \<Rightarrow> tts_limiters" where
  "init_tts_limiters url token =
     (if str_truthy url \<and> str_truthy token then
        \<lparr>tts_redis = True,
         tts_perUserRatelimit =
           Some \<lparr>rl_prefix = ''ratelimit:tts:user'', rl_tokens = 500, rl_window = day_ms\<rparr>,
         tts_globalRpmRatelimit =
           Some \<lparr>rl_prefix = ''ratelimit:tts:global:rpm'', rl_tokens = 10, rl_window = minute_ms\<rparr>\<rparr>
      else \<lparr>tts_redis = False, tts_perUserRatelimit = None, tts_globalRpmRatelimit = None\<rparr>)"

definition denied_tts :: "string \<Rightarrow> jsval" where
  "denied_tts msg = JObj [(''allowed'', JBool False), (''message'', JStr msg)]"

text \<open>\<open>checkRateLimit\<close> of the speech-synthesis handler (lines 42 to 63).\<close>

definition checkRateLimit_tts ::
  "'st limit_fn \<Rightarrow> tts_limiters \<Rightarrow> string \<Rightarrow> 'st \<Rightarrow> jsval \<times> 'st \<times> store_call list"
where
  "checkRateLimit_tts lim cfg ip st =
     (case (tts_perUserRatelimit cfg, tts_globalRpmRatelimit cfg) of
        (Some perUser, Some globalRpm) \<Rightarrow>
          if \<not> tts_redis cfg then (allowed_true, st, [])
          else
            (case limit_call lim globalRpm ''global'' (st, []) of
               (Inl error, sx) \<Rightarrow> (allowed_true, sx)
             | (Inr rpmResult, sx) \<Rightarrow>
                 if \<not> success rpmResult then
                   (denied_tts ''Too many requests. Please wait a moment.'', sx)
                 else
            (case limit_call lim perUser ip sx of
               (Inl error, sx) \<Rightarrow> (allowed_true, sx)
             | (Inr userResult, sx) \<Rightarrow>
                 if \<not> success userResult then
                   (denied_tts ''Daily TTS limit reached. Please try again tomorrow.'', sx)
                 else (allowed_true, sx)))
      | _ \<Rightarrow> (allowed_true, st, []))"

text \<open>
  \<open>text.trim()\<close>. A character is one code unit below 256; the white space of JavaScript in
  that range is tab, line feed, vertical tab, form feed, carriage return, space and the
  no-break space.
\<close>

definition is_space :: "char \<Rightarrow> bool" where
  "is_space c = (of_char c \<in> {9, 10, 11, 12, 13, 32, 160 :: nat})"

definition trim :: "string \<Rightarrow> string" where
  "trim s = rev (dropWhile is_space (rev (dropWhile is_space s)))"

text \<open>
  Line 90: \<^verbatim>\<open>!text || typeof text !== 'string' || text.trim().length === 0\<close>
\<close>

definition text_rejected :: "jsval \<Rightarrow> bool" where
  "text_rejected text =
     (\<not> truthy text \<or> (case text of JStr s \<Rightarrow> length (trim s) = 0 | _ \<Rightarrow> True))"

text \<open>
  Optional chaining on parsed JSON: \<open>v?.name\<close> and \<open>v?.[0]\<close>. Index 0 of an object is
  its property \<open>"0"\<close>, of a string its first character.
\<close>

fun opt_prop :: "jsval \<Rightarrow> string \<Rightarrow> jsval" where
  "opt_prop (JObj kvs) name = (case map_of kvs name of Some v \<Rightarrow> v | None \<Rightarrow> Undefined)"
| "opt_prop v name = Undefined"

fun opt_index0 :: "jsval \<Rightarrow> jsval" where
  "opt_index0 (JArr xs) = (case xs of [] \<Rightarrow> Undefined | x # _ \<Rightarrow> x)"
| "opt_index0 (JObj kvs) = (case map_of kvs ''0'' of Some v \<Rightarrow> v | None \<Rightarrow> Undefined)"
| "opt_index0 (JStr s) = (case s of [] \<Rightarrow> Undefined | c # _ \<Rightarrow> JStr [c])"
| "opt_index0 v = Undefined"

text \<open>Decimal digits of a number, for the template string of the 502 message.\<close>

fun show_nat :: "nat \<Rightarrow> string" where
  "show_nat n =
     (if n < 10 then [char_of (48 + n)] else show_nat (n div 10) @ [char_of (48 + n mod 10)])"

text \<open>
  What \<open>fetch\<close> does with the request for the trimmed text: it rejects, or resolves with a
  response whose \<open>ok\<close> and \<open>status\<close> are known and whose \<open>text()\<close> and \<open>json()\<close> may
  each reject.
\<close>

record fetch_response =
  res_ok :: bool
  res_status :: nat
  res_text :: "js_error + string"
  res_json :: "js_error + jsval"

datatype fetch_outcome = FetchRejected js_error | FetchResolved fetch_response

text \<open>
  Line 121: \<^verbatim>\<open>data?.candidates?.[0]?.content?.parts?.[0]\<close>, and line 123's
  \<^verbatim>\<open>part?.inlineData?.data\<close>.
\<close>

definition first_part :: "jsval \<Rightarrow> jsval" where
  "first_part data =
     opt_index0 (opt_prop (opt_prop (opt_index0 (opt_prop data ''candidates'')) ''content'') ''parts'')"

definition audio_data :: "jsval \<Rightarrow> jsval" where
  "audio_data part = opt_prop (opt_prop part ''inlineData'') ''data''"

text \<open>
  Lines 114 to 131, on the response \<open>fetch\<close> resolved with. After the test of line 123
  has passed, \<open>part\<close> and \<open>part.inlineData\<close> are objects, so the plain reads of lines
  129 and 130 cannot throw.
\<close>

definition read_response :: "fetch_response \<Rightarrow> js_error + response" where
  "read_response geminiRes =
     (if \<not> res_ok geminiRes then
        (case res_text geminiRes of
           Inl e \<Rightarrow> Inl e
         | Inr errBody \<Rightarrow>
             Inr (respond 502 (JObj [(''error'',
               JStr (''Gemini TTS error: '' @ show_nat (res_status geminiRes)))])))
      else
        (case res_json geminiRes of
           Inl e \<Rightarrow> Inl e
         | Inr data \<Rightarrow>
             let part = first_part data in
             if \<not> truthy (audio_data part) then
               Inr (respond 502 (JObj [(''error'', JStr ''No audio data returned from Gemini TTS'')]))
             else
               Inr (respond 200 (JObj [(''audioData'', audio_data part),
                                       (''mimeType'', opt_prop (opt_prop part ''inlineData'') ''mimeType'')]))))"

definition one_call :: upstream_log where
  "one_call = \<lparr>calls = 1, waits = []\<rparr>"

text \<open>
  The \<open>try\<close> block (lines 94 to 132): one \<open>fetch\<close>, no loop around it. \<open>text.trim()\<close>
  on a value that is not a string would throw before the call.
\<close>

definition synthesize ::
  "(string \<Rightarrow> fetch_outcome) \<Rightarrow> jsval \<Rightarrow> (js_error + response) \<times> upstream_log"
where
  "synthesize fetch text =
     (case text of
        JStr s \<Rightarrow>
          (case fetch (trim s) of
             FetchRejected e \<Rightarrow> (Inl e, one_call)
           | FetchResolved geminiRes \<Rightarrow> (read_response geminiRes, one_call))
      | _ \<Rightarrow> (Inl TypeError, no_calls))"

text \<open>
  The handler (lines 65 to 137). The admission check is awaited here. The destructuring of
  line 89 stands outside the \<open>try\<close> block: on a request without a body it throws, and the
  handler itself rejects (\<open>Inl\<close>) instead of answering.
\<close>

definition handler_tts ::
  "'st limit_fn \<Rightarrow> tts_limiters \<Rightarrow> (string \<Rightarrow> fetch_outcome) \<Rightarrow> request \<Rightarrow> 'st
     \<Rightarrow> (js_error + response) \<times> upstream_log \<times> 'st \<times> store_call list"
where
  "handler_tts lim cfg fetch req st =
     (if req_method req = ''OPTIONS'' then (Inr \<lparr>status = 200, json = None\<rparr>, no_calls, st, [])
      else if req_method req \<noteq> ''POST'' then
        (Inr (respond 405 (JObj [(''error'', JStr ''Method not allowed'')])), no_calls, st, [])
      else
        (case checkRateLimit_tts lim cfg (clientIp req) st of
           (decision, sx) \<Rightarrow>
             let rateLimitResult = await (JPromise decision) in
             (case get_prop rateLimitResult ''allowed'' of
                Inl e \<Rightarrow> (Inl e, no_calls, sx)
              | Inr allowed \<Rightarrow>
                  if \<not> truthy allowed then
                    (case get_prop rateLimitResult ''message'' of
                       Inl e \<Rightarrow> (Inl e, no_calls, sx)
                     | Inr msg \<Rightarrow> (Inr (respond 429 (JObj [(''error'', msg)])), no_calls, sx))
                  else
                    (case get_prop (body req) ''text'' of
                       Inl e \<Rightarrow> (Inl e, no_calls, sx)
                     | Inr text \<Rightarrow>
                         if text_rejected text then
                           (Inr (respond 400 (JObj [(''error'', JStr ''text is required'')])), no_calls, sx)
                         else
                           (case synthesize fetch text of
                              (Inl error, lg) \<Rightarrow>
                                (Inr (respond 500 (JObj [(''error'', JStr ''Failed to synthesize speech'')])),
                                 lg, sx)
                            | (Inr res, lg) \<Rightarrow> (Inr res, lg, sx))))))"


section \<open>Sample inputs\<close>

text \<open>Concrete errors, requests and environments on which the theorems below are run.\<close>

definition overloaded_error :: js_error where
  "overloaded_error = \<lparr>err_status = Some 503, err_message = Some ''The model is overloaded.''\<rparr>"

definition quota_429 :: js_error where
  "quota_429 = \<lparr>err_status = Some 429, err_message = Some ''You exceeded your current quota.''\<rparr>"

definition quota_503 :: js_error where
  "quota_503 = \<lparr>err_status = Some 503, err_message = Some ''Resource exhausted: check quota.''\<rparr>"

definition sample_env :: chat_env where
  "sample_env = \<lparr>startChat = (\<lambda>h. None),
     sendMessage = (\<lambda>m n. if n < 2 then Rejected overloaded_error else Resolved (Inr ''Moses led Israel out of Egypt.'')),
     timestamp = ''2025-10-24T13:52:00.000Z'', development = False\<rparr>"

definition sample_post :: request where
  "sample_post = \<lparr>req_method = ''POST'', x_forwarded_for = Some ''203.0.113.7'', remoteAddress = None,
     body = JObj [(''message'', JStr ''Who was Moses?'')]\<rparr>"

definition sample_limiters :: chat_limiters where
  "sample_limiters = init_chat_limiters (Some ''https://example.upstash.io'') (Some ''token'')"

definition sample_tts_limiters :: tts_limiters where
  "sample_tts_limiters = init_tts_limiters (Some ''https://example.upstash.io'') (Some ''token'')"

definition fresh_store :: counter_store where
  "fresh_store = \<lparr>reachable = True, counters = (\<lambda>name. 0), resets = (\<lambda>name. 86400000)\<rparr>"

definition exhausted_store :: counter_store where
  "exhausted_store = \<lparr>reachable = True, counters = (\<lambda>name. 1000), resets = (\<lambda>name. 86400000)\<rparr>"

definition down_store :: counter_store where
  "down_store = \<lparr>reachable = False, counters = (\<lambda>name. 1000), resets = (\<lambda>name. 86400000)\<rparr>"

text \<open>A library whose second call rejects; its state is the number of calls so far.\<close>

definition flaky_limit :: "nat limit_fn" where
  "flaky_limit l key n =
     (if n = 1 then (Inl store_unreachable, n + 1) else (Inr \<lparr>success = True, reset = 0\<rparr>, n + 1))"

definition unavailable_fetch :: "string \<Rightarrow> fetch_outcome" where
  "unavailable_fetch t = FetchResolved \<lparr>res_ok = False, res_status = 503,
     res_text = Inr ''The model is overloaded.'', res_json = Inl TypeError\<rparr>"

definition tts_post :: "jsval \<Rightarrow> request" where
  "tts_post b = \<lparr>req_method = ''POST'', x_forwarded_for = Some ''203.0.113.7'', remoteAddress = None,
     body = b\<rparr>"

section \<open>The retry loop: properties\<close>

declare retry_loop.simps [simp del]

declare show_nat.simps [simp del]

lemma retry_loop_resolved:
  "retries \<le> MAX_RETRIES \<Longrightarrow> send (calls lg) = Resolved r \<Longrightarrow>
   retry_loop send retries lg = (Inr (Some r), lg\<lparr>calls := calls lg + 1\<rparr>)"
  by (subst retry_loop.simps) simp

lemma retry_loop_retry:
  "retries < MAX_RETRIES \<Longrightarrow> send (calls lg) = Rejected err \<Longrightarrow> err_status err = Some 503 \<Longrightarrow>
   retry_loop send retries lg =
     retry_loop send (retries + 1)
       (lg\<lparr>calls := calls lg + 1, waits := waits lg @ [1000 * int (retries + 1)]\<rparr>)"
  by (subst retry_loop.simps) simp

lemma retry_loop_rethrow:
  "retries \<le> MAX_RETRIES \<Longrightarrow> send (calls lg) = Rejected err \<Longrightarrow>
   err_status err \<noteq> Some 503 \<or> \<not> retries < MAX_RETRIES \<Longrightarrow>
   retry_loop send retries lg = (Inl err, lg\<lparr>calls := calls lg + 1\<rparr>)"
  by (subst retry_loop.simps) auto

text \<open>Two overloads in a row: the loop has called twice and waited 1 s, then 2 s.\<close>

lemma retry_loop_two_overloads:
  assumes "send 0 = Rejected e0" "err_status e0 = Some 503"
      and "send 1 = Rejected e1" "err_status e1 = Some 503"
  shows "retry_loop send 0 no_calls = retry_loop send 2 \<lparr>calls = 2, waits = [1000, 2000]\<rparr>"
proof -
  have first: "retry_loop send 0 no_calls = retry_loop send 1 \<lparr>calls = 1, waits = [1000]\<rparr>"
    using assms(1,2) retry_loop_retry[of 0 send no_calls e0]
    by (simp add: MAX_RETRIES_def no_calls_def)
  have second: "retry_loop send 1 \<lparr>calls = 1, waits = [1000]\<rparr>
                  = retry_loop send 2 \<lparr>calls = 2, waits = [1000, 2000]\<rparr>"
    using assms(3,4) retry_loop_retry[of 1 send "\<lparr>calls = 1, waits = [1000]\<rparr>" e1]
    by (simp add: MAX_RETRIES_def eval_nat_numeral)
  show ?thesis by (rule trans[OF first second])
qed

text \<open>
  C5. When the upstream call fails with status 503 on every attempt, the loop retries
  exactly \<open>MAX_RETRIES = 2\<close> times, three calls in all; it waits \<open>1000 * 1\<close> ms after the
  first failure and \<open>1000 * 2\<close> ms after the second, 3000 ms in total; after the third
  failure it waits no more and rethrows that failure, which the handler's \<open>catch\<close>
  clause answers with the 503 of an overloaded service.
\<close>

theorem retry_loop_overloaded_gives_up:
  assumes "send 0 = Rejected e0" "err_status e0 = Some 503"
      and "send 1 = Rejected e1" "err_status e1 = Some 503"
      and "send 2 = Rejected e2" "err_status e2 = Some 503"
  shows "retry_loop send 0 no_calls
           = (Inl e2, \<lparr>calls = MAX_RETRIES + 1, waits = [1000 * 1, 1000 * 2]\<rparr>)
       \<and> length (waits (snd (retry_loop send 0 no_calls))) = MAX_RETRIES
       \<and> sum_list (waits (snd (retry_loop send 0 no_calls))) = 3000
       \<and> chat_catch dev e2 = respond 503 (JObj [(''error'',
            JStr ''AI service is temporarily overloaded. Please try again in a moment.'')])"
proof -
  have third: "retry_loop send 2 \<lparr>calls = 2, waits = [1000, 2000]\<rparr>
                 = (Inl e2, \<lparr>calls = 3, waits = [1000, 2000]\<rparr>)"
    using assms(5,6) retry_loop_rethrow[of 2 send "\<lparr>calls = 2, waits = [1000, 2000]\<rparr>" e2]
    by (simp add: MAX_RETRIES_def)
  have run: "retry_loop send 0 no_calls = (Inl e2, \<lparr>calls = 3, waits = [1000, 2000]\<rparr>)"
    by (rule trans[OF retry_loop_two_overloads[OF assms(1-4)] third])
  show ?thesis
    using assms(6) by (simp add: run MAX_RETRIES_def chat_catch_def)
qed

theorem retry_loop_overloaded_gives_up_witness:
  "retry_loop (\<lambda>n. Rejected overloaded_error) 0 no_calls
     = (Inl overloaded_error, \<lparr>calls = 3, waits = [1000, 2000]\<rparr>)
   \<and> sum_list (waits (snd (retry_loop (\<lambda>n. Rejected overloaded_error) 0 no_calls))) = 3000
   \<and> status (chat_catch False overloaded_error) = 503"
  using retry_loop_overloaded_gives_up[of "\<lambda>n. Rejected overloaded_error"
          overloaded_error overloaded_error overloaded_error False]
  by (simp add: overloaded_error_def MAX_RETRIES_def respond_def)

section \<open>Recovery on the third attempt\<close>

text \<open>
  The shared tail of the chat handlers, on a body with a message and a well-formed history,
  when the upstream call is overloaded twice and then resolves.
\<close>

lemma forward_recovers:
  assumes "get_prop b ''message'' = Inr message" "truthy message"
      and "get_prop b ''conversationHistory'' = Inr ch"
      and "build_history (if ch = Undefined then JArr [] else ch) = Inr history"
      and "startChat env history = None"
      and "sendMessage env message 0 = Rejected e0" "err_status e0 = Some 503"
      and "sendMessage env message 1 = Rejected e1" "err_status e1 = Some 503"
      and "sendMessage env message 2 = Resolved (Inr text)"
  shows "forward_caught env b =
           (respond 200 (JObj [(''response'', JStr text), (''timestamp'', JStr (timestamp env))]),
            \<lparr>calls = 3, waits = [1000, 2000]\<rparr>)"
proof -
  have third: "retry_loop (sendMessage env message) 2 \<lparr>calls = 2, waits = [1000, 2000]\<rparr>
                 = (Inr (Some (Inr text)), \<lparr>calls = 3, waits = [1000, 2000]\<rparr>)"
    using assms(10)
      retry_loop_resolved[of 2 "sendMessage env message" "\<lparr>calls = 2, waits = [1000, 2000]\<rparr>" "Inr text"]
    by (simp add: MAX_RETRIES_def)
  have run: "retry_loop (sendMessage env message) 0 no_calls
               = (Inr (Some (Inr text)), \<lparr>calls = 3, waits = [1000, 2000]\<rparr>)"
    by (rule trans[OF retry_loop_two_overloads[OF assms(6-9)] third])
  show ?thesis
    using assms(1-5) by (simp add: forward_caught_def forward_def run)
qed

text \<open>
  C8. For a POST request that the in-memory limiter admits and whose body carries a message:
  if the upstream call fails with status 503 on the first and on the second attempt and
  resolves on the third, the caller receives 200 with the text of that third result (and
  the timestamp), exactly three upstream calls have been made, and the waits were 1 s and
  2 s.
\<close>

theorem handler_mem_recovers_on_third_attempt:
  assumes "req_method req = ''POST''"
      and "fst (checkRateLimit_mem now (clientIp req) requestCounts)"
      and "get_prop (body req) ''message'' = Inr message" "truthy message"
      and "get_prop (body req) ''conversationHistory'' = Inr ch"
      and "build_history (if ch = Undefined then JArr [] else ch) = Inr history"
      and "startChat env history = None"
      and "sendMessage env message 0 = Rejected e0" "err_status e0 = Some 503"
      and "sendMessage env message 1 = Rejected e1" "err_status e1 = Some 503"
      and "sendMessage env message 2 = Resolved (Inr text)"
  shows "handler_mem env now req requestCounts =
           (respond 200 (JObj [(''response'', JStr text), (''timestamp'', JStr (timestamp env))]),
            \<lparr>calls = 3, waits = [1000, 2000]\<rparr>,
            snd (checkRateLimit_mem now (clientIp req) requestCounts))"
proof (cases "checkRateLimit_mem now (clientIp req) requestCounts")
  case (Pair ok requestCounts')
  with assms(2) have "ok" by simp
  with Pair assms(1) forward_recovers[OF assms(3-12)] show ?thesis
    by (simp add: handler_mem_def)
qed

theorem handler_mem_recovers_on_third_attempt_witness:
  "handler_mem sample_env 0 sample_post Map.empty =
     (respond 200 (JObj [(''response'', JStr ''Moses led Israel out of Egypt.''),
                         (''timestamp'', JStr ''2025-10-24T13:52:00.000Z'')]),
      \<lparr>calls = 3, waits = [1000, 2000]\<rparr>,
      [''203.0.113.7'' \<mapsto> \<lparr>count = 1, resetTime = 3600000\<rparr>])"
  using handler_mem_recovers_on_third_attempt[of sample_post 0 Map.empty "JStr ''Who was Moses?''"
          Undefined "[]" sample_env overloaded_error overloaded_error "''Moses led Israel out of Egypt.''"]
  by (simp add: sample_env_def sample_post_def overloaded_error_def checkRateLimit_mem_def
        check_window_def clientIp_def str_truthy_def build_history_def RATE_LIMIT_def RATE_WINDOW_def)

section \<open>Quota failures\<close>

text \<open>
  The handlers recognise an exhausted quota by the word \<open>quota\<close> in the error's message,
  and only after the overload test. The loop decides on the status alone. A failure whose
  message reports an exhausted quota and whose status is 503 is therefore retried twice,
  and answered with the message of an overloaded service.
\<close>

theorem quota_with_status_503_is_retried:
  "message_includes quota_503 ''quota''
   \<and> retry_loop (\<lambda>n. Rejected quota_503) 0 no_calls = (Inl quota_503, \<lparr>calls = 3, waits = [1000, 2000]\<rparr>)
   \<and> chat_catch False quota_503 = respond 503 (JObj [(''error'',
        JStr ''AI service is temporarily overloaded. Please try again in a moment.'')])"
proof -
  have st: "err_status quota_503 = Some 503" by (simp add: quota_503_def)
  have third: "retry_loop (\<lambda>n. Rejected quota_503) 2 \<lparr>calls = 2, waits = [1000, 2000]\<rparr>
                 = (Inl quota_503, \<lparr>calls = 3, waits = [1000, 2000]\<rparr>)"
    using retry_loop_rethrow[of 2 "\<lambda>n. Rejected quota_503" "\<lparr>calls = 2, waits = [1000, 2000]\<rparr>" quota_503]
    by (simp add: MAX_RETRIES_def)
  have run: "retry_loop (\<lambda>n. Rejected quota_503) 0 no_calls
               = (Inl quota_503, \<lparr>calls = 3, waits = [1000, 2000]\<rparr>)"
    by (rule trans[OF retry_loop_two_overloads[of "\<lambda>n. Rejected quota_503", OF refl st refl st] third])
  have inc: "message_includes quota_503 ''quota''"
    by (simp add: message_includes_def quota_503_def)
  show ?thesis
    using run inc st by (simp add: chat_catch_def)
qed

text \<open>
  C6, as amended. For every upstream failure whose message mentions \<open>quota\<close> and whose
  status is not 503, the loop performs no retry: one call, no wait, the failure rethrown at
  once. The handler answers it with status 503; when the message does not also mention
  \<open>overloaded\<close>, the body is the message kept for this case, which differs from the one
  of an overloaded service.
\<close>

theorem quota_failure_not_retried:
  assumes "send 0 = Rejected e" "message_includes e ''quota''" "err_status e \<noteq> Some 503"
  shows "retry_loop send 0 no_calls = (Inl e, \<lparr>calls = 1, waits = []\<rparr>)
       \<and> status (chat_catch dev e) = 503
       \<and> (\<not> message_includes e ''overloaded'' \<longrightarrow>
            chat_catch dev e = respond 503 (JObj [(''error'',
              JStr ''Service temporarily unavailable. Please try again later.'')])
          \<and> chat_catch dev e \<noteq> chat_catch dev overloaded_error)"
proof -
  have run: "retry_loop send 0 no_calls = (Inl e, \<lparr>calls = 1, waits = []\<rparr>)"
    using assms(1,3) retry_loop_rethrow[of 0 send no_calls e] by (simp add: no_calls_def)
  show ?thesis
    using assms(2,3) by (simp add: run chat_catch_def respond_def overloaded_error_def)
qed

theorem quota_failure_not_retried_witness:
  "retry_loop (\<lambda>n. Rejected quota_429) 0 no_calls = (Inl quota_429, \<lparr>calls = 1, waits = []\<rparr>)
   \<and> chat_catch False quota_429 = respond 503 (JObj [(''error'',
        JStr ''Service temporarily unavailable. Please try again later.'')])"
  using quota_failure_not_retried[of "\<lambda>n. Rejected quota_429" quota_429 False]
  by (simp add: quota_429_def message_includes_def)

section \<open>The in-memory limiter: counting within a window\<close>

lemma check_window_other:
  "k \<noteq> ip \<Longrightarrow> snd (check_window lim win now k requestCounts) ip = requestCounts ip"
  by (simp add: check_window_def Let_def)

lemma check_window_open:
  "requestCounts ip = Some r \<Longrightarrow> now \<le> resetTime r \<Longrightarrow>
   check_window lim win now ip requestCounts
     = (count r + 1 \<le> lim, requestCounts(ip \<mapsto> r\<lparr>count := count r + 1\<rparr>))"
  by (simp add: check_window_def Let_def)

lemma check_window_fresh:
  "requestCounts ip = None \<or> (\<exists>r. requestCounts ip = Some r \<and> resetTime r < now) \<Longrightarrow>
   check_window lim win now ip requestCounts
     = (1 \<le> lim, requestCounts(ip \<mapsto> \<lparr>count = 1, resetTime = now + win\<rparr>))"
  by (auto simp add: check_window_def Let_def)

lemma check_sequence_open:
  assumes "requestCounts ip = Some r"
      and "\<forall>(t, k) \<in> set cs. k = ip \<longrightarrow> t \<le> resetTime r"
      and "i < length cs" "snd (cs ! i) = ip"
  shows "check_sequence lim win cs requestCounts ! i
           = (count r + length (filter (\<lambda>c. snd c = ip) (take (Suc i) cs)) \<le> lim)"
  using assms
proof (induction cs arbitrary: requestCounts r i)
  case Nil
  then show ?case by simp
next
  case (Cons c cs)
  obtain t k where c: "c = (t, k)" by (cases c)
  obtain ok rc where step: "check_window lim win t k requestCounts = (ok, rc)"
    by (cases "check_window lim win t k requestCounts")
  show ?case
  proof (cases "k = ip")
    case True
    have le: "t \<le> resetTime r" using Cons.prems(2) c True by simp
    have ok: "ok = (count r + 1 \<le> lim)" and rc: "rc = requestCounts(ip \<mapsto> r\<lparr>count := count r + 1\<rparr>)"
      using check_window_open[of requestCounts ip r t lim win] Cons.prems(1) le step True by simp_all
    show ?thesis
    proof (cases i)
      case 0
      then show ?thesis using c True step ok by simp
    next
      case (Suc j)
      have "check_sequence lim win cs rc ! j
              = (count (r\<lparr>count := count r + 1\<rparr>)
                   + length (filter (\<lambda>c. snd c = ip) (take (Suc j) cs)) \<le> lim)"
        using Cons.prems Suc by (intro Cons.IH) (auto simp: rc)
      then show ?thesis using c True step Suc by simp
    qed
  next
    case False
    have rc: "rc ip = Some r"
      using check_window_other[OF False, of lim win t requestCounts] step Cons.prems(1) by simp
    show ?thesis
    proof (cases i)
      case 0
      then show ?thesis using Cons.prems(4) c False by simp
    next
      case (Suc j)
      have "check_sequence lim win cs rc ! j
              = (count r + length (filter (\<lambda>c. snd c = ip) (take (Suc j) cs)) \<le> lim)"
        using Cons.prems Suc rc by (intro Cons.IH) auto
      then show ?thesis using c False step Suc by simp
    qed
  qed
qed

text \<open>
  C7. A limiter with limit \<open>lim\<close> and window \<open>win\<close>, a key \<open>ip\<close> whose window opens
  with the call at \<open>t0\<close> (the key has no counter yet, or its counter has expired), and
  any further calls, on this key or on others, those on this key no later than
  \<open>t0 + win\<close>: the call at position \<open>i\<close>, when it is on this key, is allowed exactly
  when it is at most the \<open>lim\<close>-th call on this key so far. So the first to the
  \<open>lim\<close>-th increments within the window are allowed and the next one is denied. With
  limit 0 every call is denied, whatever the state.
\<close>

theorem check_window_nth_increment:
  assumes "requestCounts ip = None \<or> (\<exists>r. requestCounts ip = Some r \<and> resetTime r < t0)"
      and "\<forall>(t, k) \<in> set rest. k = ip \<longrightarrow> t \<le> t0 + win"
      and "i < length ((t0, ip) # rest)" "snd (((t0, ip) # rest) ! i) = ip"
  shows "check_sequence lim win ((t0, ip) # rest) requestCounts ! i
           = (length (filter (\<lambda>c. snd c = ip) (take (Suc i) ((t0, ip) # rest))) \<le> lim)
       \<and> \<not> fst (check_window 0 win now ip requestCounts)"
proof -
  have first: "check_window lim win t0 ip requestCounts
                 = (1 \<le> lim, requestCounts(ip \<mapsto> \<lparr>count = 1, resetTime = t0 + win\<rparr>))"
    using check_window_fresh[of requestCounts ip t0 lim win] assms(1) by blast
  have nth: "check_sequence lim win ((t0, ip) # rest) requestCounts ! i
           = (length (filter (\<lambda>c. snd c = ip) (take (Suc i) ((t0, ip) # rest))) \<le> lim)"
  proof (cases i)
    case 0
    then show ?thesis by (simp add: first)
  next
    case (Suc j)
    have "check_sequence lim win rest (requestCounts(ip \<mapsto> \<lparr>count = 1, resetTime = t0 + win\<rparr>)) ! j
            = (count \<lparr>count = 1, resetTime = t0 + win\<rparr>
                 + length (filter (\<lambda>c. snd c = ip) (take (Suc j) rest)) \<le> lim)"
      using assms(2-4) Suc by (intro check_sequence_open) auto
    then show ?thesis using Suc by (simp add: first)
  qed
  have zero: "\<not> fst (check_window 0 win now ip requestCounts)"
    by (simp add: check_window_def Let_def)
  show ?thesis using nth zero by simp
qed

theorem check_window_nth_increment_witness:
  "check_sequence 2 1000 [(0, ''a''), (5, ''b''), (10, ''a''), (1000, ''a'')] Map.empty ! 3 = False
   \<and> check_sequence 2 1000 [(0, ''a''), (5, ''b''), (10, ''a''), (1000, ''a'')] Map.empty ! 2 = True
   \<and> \<not> fst (check_window 0 1000 7 ''a'' Map.empty)
   \<and> check_sequence RATE_LIMIT RATE_WINDOW ((0, ''a'') # replicate 100 (1, ''a'')) Map.empty ! 99 = True
   \<and> check_sequence RATE_LIMIT RATE_WINDOW ((0, ''a'') # replicate 100 (1, ''a'')) Map.empty ! 100 = False"
  using check_window_nth_increment[of Map.empty "''a''" 0 "[(5, ''b''), (10, ''a''), (1000, ''a'')]" 1000 3 2 7]
        check_window_nth_increment[of Map.empty "''a''" 0 "[(5, ''b''), (10, ''a''), (1000, ''a'')]" 1000 2 2 7]
        check_window_nth_increment[of Map.empty "''a''" 0 "replicate 100 (1, ''a'')" RATE_WINDOW 99 RATE_LIMIT 7]
        check_window_nth_increment[of Map.empty "''a''" 0 "replicate 100 (1, ''a'')" RATE_WINDOW 100 RATE_LIMIT 7]
  by (simp add: RATE_LIMIT_def RATE_WINDOW_def)

section \<open>Admission in the Redis-backed variants\<close>

lemma checkRateLimit_missing:
  "\<not> redis cfg \<or> perUserRatelimit cfg = None \<or> globalDailyRatelimit cfg = None
     \<or> globalRpmRatelimit cfg = None \<Longrightarrow>
   checkRateLimit lim cfg ip st = (allowed_true, st, [])"
  by (auto simp: checkRateLimit_def split: option.splits)

lemma checkRateLimit_raised:
  "checkRateLimit lim cfg ip st = (decision, st', trace) \<Longrightarrow>
   \<exists>c \<in> set trace. isl (outcome c) \<Longrightarrow> decision = allowed_true"
  by (auto simp: checkRateLimit_def limit_call_def split: option.splits prod.splits sum.splits if_splits)

lemma checkRateLimit_tts_missing:
  "\<not> tts_redis cfg \<or> tts_perUserRatelimit cfg = None \<or> tts_globalRpmRatelimit cfg = None \<Longrightarrow>
   checkRateLimit_tts lim cfg ip st = (allowed_true, st, [])"
  by (auto simp: checkRateLimit_tts_def split: option.splits)

lemma checkRateLimit_tts_raised:
  "checkRateLimit_tts lim cfg ip st = (decision, st', trace) \<Longrightarrow>
   \<exists>c \<in> set trace. isl (outcome c) \<Longrightarrow> decision = allowed_true"
  by (auto simp: checkRateLimit_tts_def limit_call_def split: option.splits prod.splits sum.splits if_splits)

text \<open>
  C3. In the Redis-backed chat variant and in the speech-synthesis variant alike: if the
  store is missing (the client or one of the limiters was never built) or any call of
  \<open>limit\<close> made during the check raised, whichever tier it was for, the decision is
  \<open>{ allowed: true }\<close>. The check receives the caller's address only, never the
  payload.
\<close>

theorem checkRateLimit_fails_open:
  "(checkRateLimit lim cfg ip st = (decision, st', trace)
      \<and> (\<not> redis cfg \<or> perUserRatelimit cfg = None \<or> globalDailyRatelimit cfg = None
           \<or> globalRpmRatelimit cfg = None \<or> (\<exists>c \<in> set trace. isl (outcome c)))
      \<longrightarrow> decision = allowed_true)
   \<and> (checkRateLimit_tts lim_t cfg_t ip_t st_t = (decision_t, st_t', trace_t)
      \<and> (\<not> tts_redis cfg_t \<or> tts_perUserRatelimit cfg_t = None \<or> tts_globalRpmRatelimit cfg_t = None
           \<or> (\<exists>c \<in> set trace_t. isl (outcome c)))
      \<longrightarrow> decision_t = allowed_true)"
  using checkRateLimit_missing[of cfg lim ip st] checkRateLimit_raised[of lim cfg ip st decision st' trace]
        checkRateLimit_tts_missing[of cfg_t lim_t ip_t st_t]
        checkRateLimit_tts_raised[of lim_t cfg_t ip_t st_t decision_t st_t' trace_t]
  by auto

theorem checkRateLimit_fails_open_witness:
  "fst (checkRateLimit store_limit sample_limiters ''203.0.113.7'' down_store) = allowed_true
   \<and> fst (checkRateLimit_tts flaky_limit sample_tts_limiters ''203.0.113.7'' 0) = allowed_true"
  using checkRateLimit_fails_open[of store_limit sample_limiters "''203.0.113.7''" down_store
          "fst (checkRateLimit store_limit sample_limiters ''203.0.113.7'' down_store)"
          "fst (snd (checkRateLimit store_limit sample_limiters ''203.0.113.7'' down_store))"
          "snd (snd (checkRateLimit store_limit sample_limiters ''203.0.113.7'' down_store))"
          flaky_limit sample_tts_limiters "''203.0.113.7''" 0
          "fst (checkRateLimit_tts flaky_limit sample_tts_limiters ''203.0.113.7'' 0)"
          "fst (snd (checkRateLimit_tts flaky_limit sample_tts_limiters ''203.0.113.7'' 0))"
          "snd (snd (checkRateLimit_tts flaky_limit sample_tts_limiters ''203.0.113.7'' 0))"]
  by (simp add: checkRateLimit_def checkRateLimit_tts_def limit_call_def store_limit_def flaky_limit_def
        sample_limiters_def sample_tts_limiters_def init_chat_limiters_def init_tts_limiters_def
        str_truthy_def down_store_def)

section \<open>Order of the tiers\<close>

text \<open>
  The calls a check makes are an initial part of: global daily, global per minute, per
  caller.
\<close>

lemma checkRateLimit_calls_in_order:
  assumes "redis cfg" "perUserRatelimit cfg = Some perUser"
      and "globalDailyRatelimit cfg = Some globalDaily" "globalRpmRatelimit cfg = Some globalRpm"
  shows "map call_target (snd (snd (checkRateLimit lim cfg ip st)))
           = take (length (snd (snd (checkRateLimit lim cfg ip st))))
               [(globalDaily, ''global''), (globalRpm, ''global''), (perUser, ip)]"
  using assms
  by (auto simp: checkRateLimit_def limit_call_def call_target_def
           split: option.splits prod.splits sum.splits if_splits)

text \<open>
  C4. With the store configured, a request that the global daily tier denies is reported
  as \<open>daily_limit\<close>, with that tier's reset time, whatever the per-caller tier would
  have said: the only call made is the one on the global daily limiter, and the store is
  left as that call left it, so the per-caller counter is not incremented. In every
  check the calls come in the order global daily, global per minute, per caller.
\<close>

theorem checkRateLimit_short_circuits:
  assumes "redis cfg" "perUserRatelimit cfg = Some perUser"
      and "globalDailyRatelimit cfg = Some globalDaily" "globalRpmRatelimit cfg = Some globalRpm"
      and "lim globalDaily ''global'' st = (Inr r, st1)" "\<not> success r"
  shows "checkRateLimit lim cfg ip st
           = (denied ''daily_limit'' ''Daily request limit reached. Please try again tomorrow.'' (reset r),
              st1,
              [\<lparr>on_limiter = globalDaily, call_key = ''global'', outcome = Inr r\<rparr>])
       \<and> get_prop (fst (checkRateLimit lim cfg ip st)) ''reason'' = Inr (JStr ''daily_limit'')
       \<and> (\<forall>ip' st'. map call_target (snd (snd (checkRateLimit lim cfg ip' st')))
             = take (length (snd (snd (checkRateLimit lim cfg ip' st'))))
                 [(globalDaily, ''global''), (globalRpm, ''global''), (perUser, ip')])"
proof -
  have run: "checkRateLimit lim cfg ip st
           = (denied ''daily_limit'' ''Daily request limit reached. Please try again tomorrow.'' (reset r),
              st1,
              [\<lparr>on_limiter = globalDaily, call_key = ''global'', outcome = Inr r\<rparr>])"
    using assms by (simp add: checkRateLimit_def limit_call_def)
  have why: "get_prop (fst (checkRateLimit lim cfg ip st)) ''reason'' = Inr (JStr ''daily_limit'')"
    by (simp add: run denied_def)
  have order: "\<forall>ip' st'. map call_target (snd (snd (checkRateLimit lim cfg ip' st')))
             = take (length (snd (snd (checkRateLimit lim cfg ip' st'))))
                 [(globalDaily, ''global''), (globalRpm, ''global''), (perUser, ip')]"
    using checkRateLimit_calls_in_order[OF assms(1-4), of lim] by simp
  show ?thesis
    by (intro conjI run why order)
qed

theorem checkRateLimit_short_circuits_witness:
  "\<not> success (projr (fst (store_limit (the (perUserRatelimit sample_limiters)) ''203.0.113.7'' exhausted_store)))
   \<and> fst (checkRateLimit store_limit sample_limiters ''203.0.113.7'' exhausted_store)
       = denied ''daily_limit'' ''Daily request limit reached. Please try again tomorrow.'' 86400000
   \<and> counters (fst (snd (checkRateLimit store_limit sample_limiters ''203.0.113.7'' exhausted_store)))
        ''ratelimit:user:203.0.113.7'' = counters exhausted_store ''ratelimit:user:203.0.113.7''
   \<and> counters (fst (snd (checkRateLimit store_limit sample_limiters ''203.0.113.7'' exhausted_store)))
        ''ratelimit:global:daily:global'' = 1001"
  using checkRateLimit_short_circuits[of sample_limiters
          "\<lparr>rl_prefix = ''ratelimit:user'', rl_tokens = 50, rl_window = day_ms\<rparr>"
          "\<lparr>rl_prefix = ''ratelimit:global:daily'', rl_tokens = 900, rl_window = day_ms\<rparr>"
          "\<lparr>rl_prefix = ''ratelimit:global:rpm'', rl_tokens = 12, rl_window = minute_ms\<rparr>"
          store_limit exhausted_store
          "\<lparr>success = False, reset = 86400000\<rparr>"
          "exhausted_store\<lparr>counters := (counters exhausted_store)(''ratelimit:global:daily:global'' := 1001)\<rparr>"
          "''203.0.113.7''"]
  by (simp add: sample_limiters_def init_chat_limiters_def str_truthy_def store_limit_def
        exhausted_store_def)

text \<open>
  The speech-synthesis check has two tiers, global per minute and then per caller, and
  stops at the first in the same way.
\<close>

lemma checkRateLimit_tts_short_circuits:
  assumes "tts_redis cfg" "tts_perUserRatelimit cfg = Some perUser"
      and "tts_globalRpmRatelimit cfg = Some globalRpm"
      and "lim globalRpm ''global'' st = (Inr r, st1)" "\<not> success r"
  shows "checkRateLimit_tts lim cfg ip st
           = (denied_tts ''Too many requests. Please wait a moment.'', st1,
              [\<lparr>on_limiter = globalRpm, call_key = ''global'', outcome = Inr r\<rparr>])"
  using assms by (simp add: checkRateLimit_tts_def limit_call_def)

section \<open>The un-awaited admission check\<close>

text \<open>
  Applied to the promise, the test of line 123 always fires: the promise has no
  \<open>allowed\<close>, no \<open>message\<close> and no \<open>reason\<close>.
\<close>

lemma admission_branch_promise:
  "admission_branch (JPromise decision)
     = Inr (Some (respond 429 (JObj [(''error'', Undefined), (''reason'', Undefined)])))"
  by (simp add: admission_branch_def)

text \<open>
  C2. In the Redis-backed chat variant every POST request is answered with status 429 and
  a body whose \<open>error\<close> and \<open>reason\<close> are \<open>undefined\<close>, whatever the library does,
  whether or not the store is configured, and whatever the counters and the payload are.
\<close>

theorem handler_post_always_429:
  assumes "req_method req = ''POST''"
  shows "fst (handler lim cfg env req st)
           = respond 429 (JObj [(''error'', Undefined), (''reason'', Undefined)])"
  using assms by (simp add: handler_def admission_branch_promise split: prod.splits)

theorem handler_post_always_429_witness:
  "fst (handler store_limit sample_limiters sample_env sample_post fresh_store)
     = respond 429 (JObj [(''error'', Undefined), (''reason'', Undefined)])
   \<and> fst (handler store_limit (init_chat_limiters None None) sample_env sample_post exhausted_store)
     = respond 429 (JObj [(''error'', Undefined), (''reason'', Undefined)])"
  using handler_post_always_429[of sample_post store_limit sample_limiters sample_env fresh_store]
        handler_post_always_429[of sample_post store_limit "init_chat_limiters None None" sample_env
          exhausted_store]
  by (simp add: sample_post_def)

text \<open>
  C1, as amended. In the Redis-backed chat variant the handler reads the admission result
  without waiting for it, and the effect is that the decision is never consulted and no
  request is forwarded: for every request zero upstream calls are made and nothing is
  waited for, and the response is the same whatever the library, the limiters and the
  counters are. Had the result been awaited, an admitting decision would have passed the
  test of line 123.
\<close>

theorem handler_never_forwards:
  "fst (snd (handler lim cfg env req st)) = no_calls
   \<and> fst (handler lim cfg env req st) = fst (handler lim' cfg' env req st')
   \<and> admission_branch (await (JPromise allowed_true)) = Inr None"
  by (simp add: handler_def admission_branch_promise admission_branch_def allowed_true_def split: prod.splits)

theorem handler_never_forwards_witness:
  "fst (checkRateLimit store_limit sample_limiters (clientIp sample_post) fresh_store) = allowed_true
   \<and> fst (snd (handler store_limit sample_limiters sample_env sample_post fresh_store)) = no_calls
   \<and> fst (handler store_limit sample_limiters sample_env sample_post fresh_store)
       = fst (handler store_limit sample_limiters sample_env sample_post exhausted_store)"
  using handler_never_forwards[of store_limit sample_limiters sample_env sample_post fresh_store
          store_limit sample_limiters exhausted_store]
  by (simp add: checkRateLimit_def limit_call_def store_limit_def sample_limiters_def
        init_chat_limiters_def str_truthy_def fresh_store_def)

text \<open>
  A request over the limits (the store's counters stand at 1000) is not forwarded: no
  upstream call is made for it. Nor is there any request that a tier denies and that this
  handler forwards.
\<close>

theorem handler_forwards_over_limit_refuted:
  "fst (checkRateLimit store_limit sample_limiters (clientIp sample_post) exhausted_store) \<noteq> allowed_true
   \<and> calls (fst (snd (handler store_limit sample_limiters sample_env sample_post exhausted_store))) = 0
   \<and> \<not> (\<exists>(lim :: counter_store limit_fn) cfg env req st.
        fst (checkRateLimit lim cfg (clientIp req) st) \<noteq> allowed_true
        \<and> calls (fst (snd (handler lim cfg env req st))) > 0)"
proof -
  have over: "fst (checkRateLimit store_limit sample_limiters (clientIp sample_post) exhausted_store)
                \<noteq> allowed_true"
    by (simp add: checkRateLimit_def limit_call_def store_limit_def sample_limiters_def
          init_chat_limiters_def str_truthy_def exhausted_store_def allowed_true_def denied_def)
  have none: "\<And>(lim :: counter_store limit_fn) cfg env req st.
                calls (fst (snd (handler lim cfg env req st))) = 0"
    by (simp add: handler_def admission_branch_promise no_calls_def split: prod.splits)
  show ?thesis
    using over none by simp
qed

section \<open>The speech-synthesis handler\<close>

text \<open>\<open>text.trim()\<close> is empty exactly when the text holds white space only.\<close>

lemma dropWhile_all: "(\<forall>c \<in> set (dropWhile P s). P c) \<longleftrightarrow> dropWhile P s = []"
proof
  assume all: "\<forall>c \<in> set (dropWhile P s). P c"
  show "dropWhile P s = []"
  proof (rule ccontr)
    assume ne: "dropWhile P s \<noteq> []"
    then have "hd (dropWhile P s) \<in> set (dropWhile P s)" by simp
    with all have "P (hd (dropWhile P s))" by blast
    with hd_dropWhile[OF ne] show False by simp
  qed
next
  assume "dropWhile P s = []"
  then show "\<forall>c \<in> set (dropWhile P s). P c" by (simp only: list.set ball_empty)
qed

lemma trim_empty: "trim s = [] \<longleftrightarrow> (\<forall>c \<in> set s. is_space c)"
proof -
  have "trim s = [] \<longleftrightarrow> (\<forall>c \<in> set (dropWhile is_space s). is_space c)"
    by (simp add: trim_def dropWhile_eq_Nil_conv)
  also have "\<dots> \<longleftrightarrow> dropWhile is_space s = []"
    by (rule dropWhile_all)
  also have "\<dots> \<longleftrightarrow> (\<forall>c \<in> set s. is_space c)"
    by (simp add: dropWhile_eq_Nil_conv)
  finally show ?thesis .
qed

lemma text_rejected_iff:
  "text_rejected text \<longleftrightarrow> (\<forall>s. text \<noteq> JStr s) \<or> (\<exists>s. text = JStr s \<and> (\<forall>c \<in> set s. is_space c))"
  by (cases "text") (auto simp: text_rejected_def trim_empty)

text \<open>The handler calls \<open>fetch\<close> once or not at all, and never waits.\<close>

lemma synthesize_log:
  "synthesize fetch text = (r, lg) \<Longrightarrow> lg = one_call \<or> lg = no_calls"
  by (auto simp: synthesize_def split: jsval.splits fetch_outcome.splits)

lemma handler_tts_log:
  "fst (snd (handler_tts lim cfg fetch req st)) = one_call
   \<or> fst (snd (handler_tts lim cfg fetch req st)) = no_calls"
  by (auto simp: handler_tts_def Let_def split: prod.splits sum.splits dest: synthesize_log)

lemma handler_tts_forwarded:
  assumes "req_method req = ''POST''"
      and "fst (checkRateLimit_tts lim cfg (clientIp req) st) = allowed_true"
      and "get_prop (body req) ''text'' = Inr (JStr s)" "\<not> text_rejected (JStr s)"
  shows "handler_tts lim cfg fetch req st =
           (case fetch (trim s) of
              FetchRejected e \<Rightarrow> Inr (respond 500 (JObj [(''error'', JStr ''Failed to synthesize speech'')]))
            | FetchResolved geminiRes \<Rightarrow>
                (case read_response geminiRes of
                   Inl e \<Rightarrow> Inr (respond 500 (JObj [(''error'', JStr ''Failed to synthesize speech'')]))
                 | Inr res \<Rightarrow> Inr res),
            one_call, snd (checkRateLimit_tts lim cfg (clientIp req) st))"
proof (cases "checkRateLimit_tts lim cfg (clientIp req) st")
  case (fields decision st' trace)
  with assms(2) have "decision = allowed_true" by simp
  with fields assms(1,3,4) show ?thesis
    by (simp add: handler_tts_def synthesize_def allowed_true_def
             split: fetch_outcome.splits sum.splits)
qed

text \<open>
  C9. The speech-synthesis handler has no retry. For a request that reaches the upstream
  call (a POST that admission lets through, with a text that passes line 90), exactly one
  call of \<open>fetch\<close> is made and nothing is waited for; a response that is not \<open>ok\<close>,
  whatever its status (503 included), is answered with 502 at once, and so is a response
  without audio data; a rejected \<open>fetch\<close>, or a body that cannot be read, is answered
  with 500 at once. For no request at all does the handler make more than one call or
  wait.
\<close>

theorem handler_tts_single_call:
  fixes lim :: "'st limit_fn"
  assumes "req_method req = ''POST''"
      and "fst (checkRateLimit_tts lim cfg (clientIp req) st) = allowed_true"
      and "get_prop (body req) ''text'' = Inr (JStr s)" "\<not> text_rejected (JStr s)"
  shows "fst (snd (handler_tts lim cfg fetch req st)) = \<lparr>calls = 1, waits = []\<rparr>
       \<and> (\<forall>r b. fetch (trim s) = FetchResolved r \<and> \<not> res_ok r \<and> res_text r = Inr b \<longrightarrow>
             fst (handler_tts lim cfg fetch req st)
               = Inr (respond 502 (JObj [(''error'', JStr (''Gemini TTS error: '' @ show_nat (res_status r)))])))
       \<and> (\<forall>r data. fetch (trim s) = FetchResolved r \<and> res_ok r \<and> res_json r = Inr data
                    \<and> \<not> truthy (audio_data (first_part data)) \<longrightarrow>
             fst (handler_tts lim cfg fetch req st)
               = Inr (respond 502 (JObj [(''error'', JStr ''No audio data returned from Gemini TTS'')])))
       \<and> ((\<exists>e. fetch (trim s) = FetchRejected e)
            \<or> (\<exists>r e. fetch (trim s) = FetchResolved r
                  \<and> (if res_ok r then res_json r = Inl e else res_text r = Inl e)) \<longrightarrow>
             fst (handler_tts lim cfg fetch req st)
               = Inr (respond 500 (JObj [(''error'', JStr ''Failed to synthesize speech'')])))
       \<and> (\<forall>(lim' :: 'st limit_fn) cfg' fetch' req' st'.
             calls (fst (snd (handler_tts lim' cfg' fetch' req' st'))) \<le> 1
             \<and> waits (fst (snd (handler_tts lim' cfg' fetch' req' st'))) = [])"
proof -
  note run = handler_tts_forwarded[OF assms, of fetch]
  have one: "fst (snd (handler_tts lim cfg fetch req st)) = \<lparr>calls = 1, waits = []\<rparr>"
    by (simp add: run one_call_def)
  have not_ok: "\<forall>r b. fetch (trim s) = FetchResolved r \<and> \<not> res_ok r \<and> res_text r = Inr b \<longrightarrow>
             fst (handler_tts lim cfg fetch req st)
               = Inr (respond 502 (JObj [(''error'', JStr (''Gemini TTS error: '' @ show_nat (res_status r)))]))"
    by (simp add: run read_response_def)
  have no_audio: "\<forall>r data. fetch (trim s) = FetchResolved r \<and> res_ok r \<and> res_json r = Inr data
                    \<and> \<not> truthy (audio_data (first_part data)) \<longrightarrow>
             fst (handler_tts lim cfg fetch req st)
               = Inr (respond 502 (JObj [(''error'', JStr ''No audio data returned from Gemini TTS'')]))"
    by (simp add: run read_response_def)
  have thrown: "(\<exists>e. fetch (trim s) = FetchRejected e)
            \<or> (\<exists>r e. fetch (trim s) = FetchResolved r
                  \<and> (if res_ok r then res_json r = Inl e else res_text r = Inl e)) \<longrightarrow>
             fst (handler_tts lim cfg fetch req st)
               = Inr (respond 500 (JObj [(''error'', JStr ''Failed to synthesize speech'')]))"
    by (auto simp add: run read_response_def split: if_splits)
  have never_more: "\<forall>(lim' :: 'st limit_fn) cfg' fetch' req' st'.
             calls (fst (snd (handler_tts lim' cfg' fetch' req' st'))) \<le> 1
             \<and> waits (fst (snd (handler_tts lim' cfg' fetch' req' st'))) = []"
  proof (intro allI)
    fix lim' :: "'st limit_fn" and cfg' fetch' req' and st' :: 'st
    show "calls (fst (snd (handler_tts lim' cfg' fetch' req' st'))) \<le> 1
             \<and> waits (fst (snd (handler_tts lim' cfg' fetch' req' st'))) = []"
      using handler_tts_log[of lim' cfg' fetch' req' st']
      by (auto simp: one_call_def no_calls_def)
  qed
  show ?thesis
    by (intro conjI one not_ok no_audio thrown never_more)
qed

theorem handler_tts_single_call_witness:
  "handler_tts store_limit sample_tts_limiters unavailable_fetch
       (tts_post (JObj [(''text'', JStr ''  In the beginning  '')])) fresh_store
     = (Inr (respond 502 (JObj [(''error'', JStr ''Gemini TTS error: 503'')])),
        \<lparr>calls = 1, waits = []\<rparr>,
        snd (checkRateLimit_tts store_limit sample_tts_limiters ''203.0.113.7'' fresh_store))"
proof -
  let ?req = "tts_post (JObj [(''text'', JStr ''  In the beginning  '')])"
  have ip: "clientIp ?req = ''203.0.113.7''"
    by (simp add: tts_post_def clientIp_def str_truthy_def)
  have admitted: "fst (checkRateLimit_tts store_limit sample_tts_limiters (clientIp ?req) fresh_store)
                    = allowed_true"
    by (simp add: ip checkRateLimit_tts_def limit_call_def store_limit_def sample_tts_limiters_def
          init_tts_limiters_def str_truthy_def fresh_store_def)
  have body_text: "get_prop (body ?req) ''text'' = Inr (JStr ''  In the beginning  '')"
    by (simp add: tts_post_def)
  have ok: "\<not> text_rejected (JStr ''  In the beginning  '')"
    by (simp add: text_rejected_def trim_def is_space_def)
  have post: "req_method ?req = ''POST''"
    by (simp add: tts_post_def)
  have digits: "show_nat 503 = ''503''"
    by code_simp
  from handler_tts_single_call[OF post admitted body_text ok, of unavailable_fetch]
  have one: "fst (snd (handler_tts store_limit sample_tts_limiters unavailable_fetch ?req fresh_store))
               = \<lparr>calls = 1, waits = []\<rparr>"
    and res: "fst (handler_tts store_limit sample_tts_limiters unavailable_fetch ?req fresh_store)
               = Inr (respond 502 (JObj [(''error'', JStr ''Gemini TTS error: 503'')]))"
    by (simp_all add: unavailable_fetch_def digits)
  have rest: "snd (snd (handler_tts store_limit sample_tts_limiters unavailable_fetch ?req fresh_store))
                = snd (checkRateLimit_tts store_limit sample_tts_limiters ''203.0.113.7'' fresh_store)"
    using post by (simp add: handler_tts_def ip Let_def split: prod.splits sum.splits)
  show ?thesis
    using one res rest by (metis prod.collapse)
qed

section \<open>Validation of the text, after admission\<close>

text \<open>
  An admitting check on a configured store, none of whose calls raised, has called the
  global per-minute limiter and then the per-caller limiter.
\<close>

lemma checkRateLimit_tts_admitted_calls:
  assumes "checkRateLimit_tts lim cfg ip st = (allowed_true, st', trace)"
      and "tts_redis cfg" "tts_perUserRatelimit cfg = Some perUser"
      and "tts_globalRpmRatelimit cfg = Some globalRpm"
      and "\<forall>c \<in> set trace. \<not> isl (outcome c)"
  shows "map call_target trace = [(globalRpm, ''global''), (perUser, ip)]"
  using assms
  by (auto simp: checkRateLimit_tts_def limit_call_def call_target_def allowed_true_def denied_tts_def
           split: prod.splits sum.splits if_splits)

text \<open>
  C10, as amended. For every POST request that admission lets through and whose body is
  not \<open>null\<close> or \<open>undefined\<close>: if its \<open>text\<close> is missing, is not a string, or holds
  white space only, the handler answers 400 and makes no upstream call. The admission
  check has run before: the store and the recorded calls are those the check left, and
  when the store is configured and no call raised, both the global per-minute and the
  per-caller limiter have been called for this request.
\<close>

theorem handler_tts_rejects_invalid_text:
  assumes "req_method req = ''POST''"
      and "checkRateLimit_tts lim cfg (clientIp req) st = (allowed_true, st', trace)"
      and "get_prop (body req) ''text'' = Inr txt"
      and "txt = Undefined \<or> (\<forall>s. txt \<noteq> JStr s) \<or> (\<exists>s. txt = JStr s \<and> (\<forall>c \<in> set s. is_space c))"
  shows "handler_tts lim cfg fetch req st
           = (Inr (respond 400 (JObj [(''error'', JStr ''text is required'')])), no_calls, st', trace)
       \<and> (tts_redis cfg \<and> tts_perUserRatelimit cfg = Some perUser
            \<and> tts_globalRpmRatelimit cfg = Some globalRpm
            \<and> (\<forall>c \<in> set trace. \<not> isl (outcome c))
          \<longrightarrow> map call_target trace = [(globalRpm, ''global''), (perUser, clientIp req)])"
proof -
  have rejected: "text_rejected txt"
    using assms(4) by (auto simp: text_rejected_iff)
  have run: "handler_tts lim cfg fetch req st
           = (Inr (respond 400 (JObj [(''error'', JStr ''text is required'')])), no_calls, st', trace)"
    using assms(1-3) rejected by (simp add: handler_tts_def allowed_true_def)
  show ?thesis
    using run checkRateLimit_tts_admitted_calls[OF assms(2)] by blast
qed

theorem handler_tts_rejects_invalid_text_witness:
  "handler_tts store_limit sample_tts_limiters unavailable_fetch
       (tts_post (JObj [(''text'', JStr ''  '')])) fresh_store
     = (Inr (respond 400 (JObj [(''error'', JStr ''text is required'')])), no_calls,
        fresh_store\<lparr>counters := (counters fresh_store)
          (''ratelimit:tts:global:rpm:global'' := 1, ''ratelimit:tts:user:203.0.113.7'' := 1)\<rparr>,
        [\<lparr>on_limiter = \<lparr>rl_prefix = ''ratelimit:tts:global:rpm'', rl_tokens = 10, rl_window = minute_ms\<rparr>,
          call_key = ''global'', outcome = Inr \<lparr>success = True, reset = 86400000\<rparr>\<rparr>,
         \<lparr>on_limiter = \<lparr>rl_prefix = ''ratelimit:tts:user'', rl_tokens = 500, rl_window = day_ms\<rparr>,
          call_key = ''203.0.113.7'', outcome = Inr \<lparr>success = True, reset = 86400000\<rparr>\<rparr>])"
  using handler_tts_rejects_invalid_text[of "tts_post (JObj [(''text'', JStr ''  '')])"
          store_limit sample_tts_limiters fresh_store
          "fresh_store\<lparr>counters := (counters fresh_store)
             (''ratelimit:tts:global:rpm:global'' := 1, ''ratelimit:tts:user:203.0.113.7'' := 1)\<rparr>"
          "[\<lparr>on_limiter = \<lparr>rl_prefix = ''ratelimit:tts:global:rpm'', rl_tokens = 10, rl_window = minute_ms\<rparr>,
             call_key = ''global'', outcome = Inr \<lparr>success = True, reset = 86400000\<rparr>\<rparr>,
            \<lparr>on_limiter = \<lparr>rl_prefix = ''ratelimit:tts:user'', rl_tokens = 500, rl_window = day_ms\<rparr>,
             call_key = ''203.0.113.7'', outcome = Inr \<lparr>success = True, reset = 86400000\<rparr>\<rparr>]"
          "JStr ''  ''" unavailable_fetch]
  by (simp add: tts_post_def clientIp_def str_truthy_def checkRateLimit_tts_def limit_call_def
        store_limit_def sample_tts_limiters_def init_tts_limiters_def fresh_store_def allowed_true_def
        is_space_def)

text \<open>
  A POST without a body is not answered with 400: line 89 throws outside the \<open>try\<close>
  block and the handler rejects. And when the store is not configured, a request with a
  missing text is answered with 400 without any counter having been touched.
\<close>

theorem handler_tts_no_body_throws:
  "fst (handler_tts store_limit sample_tts_limiters unavailable_fetch (tts_post Null) fresh_store)
     = Inl TypeError
   \<and> handler_tts store_limit (init_tts_limiters None None) unavailable_fetch (tts_post (JObj [])) fresh_store
     = (Inr (respond 400 (JObj [(''error'', JStr ''text is required'')])), no_calls, fresh_store, [])"
  by (simp add: handler_tts_def tts_post_def clientIp_def str_truthy_def checkRateLimit_tts_def
        limit_call_def store_limit_def sample_tts_limiters_def init_tts_limiters_def fresh_store_def
        allowed_true_def text_rejected_def)

end
